theory Spec2Isabelle
  imports Complex_Main "HOL-Library.Multiset"
begin

section \<open>Floating-point values\<close>

text \<open>
  Python and numpy floats are modelled as the extended values of IEEE 754: a finite value,
  the two infinities, or NaN. Finite arithmetic is idealised to the reals (no rounding, no
  overflow); what is kept exactly is how the special values arise (division by zero) and
  how they propagate through arithmetic and comparison, which is what the similarity
  engine's behaviour on degenerate vectors depends on.
\<close>

datatype fval = Fin real | PInf | NInf | NaN

text \<open>\<open>a < b\<close> on floats: every comparison with NaN is False.\<close>

fun flt :: "fval \<Rightarrow> fval \<Rightarrow> bool" where
  "flt (Fin x) (Fin y) = (x < y)"
| "flt NaN _ = False"
| "flt _ NaN = False"
| "flt PInf _ = False"
| "flt _ PInf = True"
| "flt _ NInf = False"
| "flt NInf (Fin y) = True"

text \<open>\<open>a >= b\<close> on floats.\<close>

fun fge :: "fval \<Rightarrow> fval \<Rightarrow> bool" where
  "fge (Fin x) (Fin y) = (x \<ge> y)"
| "fge NaN _ = False"
| "fge _ NaN = False"
| "fge PInf _ = True"
| "fge _ NInf = True"
| "fge _ PInf = False"
| "fge NInf (Fin y) = False"

text \<open>
  \<open>array / scalar\<close> in numpy, one component: dividing by zero raises nothing (numpy only
  warns); \<open>0 / 0\<close> is NaN and a non-zero value over zero is an infinity of its sign.
\<close>

definition fdiv :: "real \<Rightarrow> real \<Rightarrow> fval" where
  "fdiv x y =
     (if y \<noteq> 0 then Fin (x / y)
      else if x = 0 then NaN
      else if x > 0 then PInf else NInf)"

fun fmul :: "fval \<Rightarrow> fval \<Rightarrow> fval" where
  "fmul (Fin x) (Fin y) = Fin (x * y)"
| "fmul NaN _ = NaN"
| "fmul _ NaN = NaN"
| "fmul (Fin x) PInf = (if x = 0 then NaN else if x > 0 then PInf else NInf)"
| "fmul (Fin x) NInf = (if x = 0 then NaN else if x > 0 then NInf else PInf)"
| "fmul PInf (Fin y) = (if y = 0 then NaN else if y > 0 then PInf else NInf)"
| "fmul NInf (Fin y) = (if y = 0 then NaN else if y > 0 then NInf else PInf)"
| "fmul PInf PInf = PInf"
| "fmul NInf NInf = PInf"
| "fmul PInf NInf = NInf"
| "fmul NInf PInf = NInf"

fun fadd :: "fval \<Rightarrow> fval \<Rightarrow> fval" where
  "fadd (Fin x) (Fin y) = Fin (x + y)"
| "fadd NaN _ = NaN"
| "fadd _ NaN = NaN"
| "fadd PInf NInf = NaN"
| "fadd NInf PInf = NaN"
| "fadd PInf _ = PInf"
| "fadd NInf _ = NInf"
| "fadd (Fin x) PInf = PInf"
| "fadd (Fin x) NInf = NInf"

text \<open>
  Python's built-in \<open>min(a, b)\<close> keeps its first argument unless the second compares
  strictly smaller, and \<open>max(a, b)\<close> keeps its first argument unless the second compares
  strictly greater.
\<close>

definition py_min :: "fval \<Rightarrow> fval \<Rightarrow> fval" where
  "py_min a b = (if flt b a then b else a)"

definition py_max :: "fval \<Rightarrow> fval \<Rightarrow> fval" where
  "py_max a b = (if flt a b then b else a)"

section \<open>Confidence tiers (face_recognition/models.py)\<close>

datatype confidence_level = eagle_trail | lobo_trail | no_match

text \<open>
  \<^verbatim>\<open>
  def determine_confidence_level(cls, similarity_score):
      if similarity_score >= 0.90:   return 'eagle_trail'
      elif similarity_score >= 0.80: return 'lobo_trail'
      else:                          return 'no_match'
  \<close>
\<close>

definition determine_confidence_level :: "fval \<Rightarrow> confidence_level" where
  "determine_confidence_level similarity_score =
     (if fge similarity_score (Fin (90 / 100)) then eagle_trail
      else if fge similarity_score (Fin (80 / 100)) then lobo_trail
      else no_match)"

section \<open>Similarity engine (face_recognition/services.py)\<close>

text \<open>\<open>np.linalg.norm\<close> of a one-dimensional array: the Euclidean norm.\<close>

definition np_norm :: "real list \<Rightarrow> real" where
  "np_norm v = sqrt (sum_list (map (\<lambda>x. x * x) v))"

text \<open>
  \<open>np.dot\<close> of two one-dimensional arrays: the sum of the products of the components;
  arrays of different lengths raise ValueError (\<open>None\<close>).
\<close>

definition np_dot :: "fval list \<Rightarrow> fval list \<Rightarrow> fval option" where
  "np_dot a b =
     (if length a \<noteq> length b then None
      else Some (foldl fadd (Fin 0) (map (\<lambda>(x, y). fmul x y) (zip a b))))"

text \<open>
  \<^verbatim>\<open>
  def calculate_cosine_similarity(vec1, vec2):
      try:
          vec1_norm = vec1 / np.linalg.norm(vec1)
          vec2_norm = vec2 / np.linalg.norm(vec2)
          similarity = np.dot(vec1_norm, vec2_norm)
          similarity = max(0, min(1, similarity))
          return float(similarity)
      except Exception as e:
          return 0.0
  \<close>
\<close>

definition calculate_cosine_similarity :: "real list \<Rightarrow> real list \<Rightarrow> fval" where
  "calculate_cosine_similarity vec1 vec2 =
     (let vec1_norm = map (\<lambda>x. fdiv x (np_norm vec1)) vec1;
          vec2_norm = map (\<lambda>x. fdiv x (np_norm vec2)) vec2
      in case np_dot vec1_norm vec2_norm of
           None \<Rightarrow> Fin 0
         | Some similarity \<Rightarrow> py_max (Fin 0) (py_min (Fin 1) similarity))"

text \<open>
  The sibling method \<open>FaceEmbedding.calculate_similarity\<close> (face_recognition/models.py)
  guards the zero magnitude explicitly and does not clamp:
  \<^verbatim>\<open>
  dot_product = np.dot(this_vector, other_vector)
  magnitude1 = np.linalg.norm(this_vector)
  magnitude2 = np.linalg.norm(other_vector)
  if magnitude1 == 0 or magnitude2 == 0:
      return 0
  return dot_product / (magnitude1 * magnitude2)
  \<close>
\<close>

datatype embedding_status = es_pending | es_processing | es_completed | es_failed

record FaceEmbedding =
  fe_pet :: nat
  fe_embedding_vector :: "real list"
  fe_vector_dimension :: nat
  fe_status :: embedding_status
  fe_source_images_count :: nat

text \<open>One entry of the list \<open>find_similar_pets\<close> returns (a dict in the source).\<close>

record match =
  m_pet :: nat
  m_embedding :: FaceEmbedding
  m_similarity :: fval
  m_confidence_level :: confidence_level

text \<open>
  \<open>similarities.sort(key=lambda x: x['similarity'], reverse=True)\<close>: Python's sort is
  stable, also with \<open>reverse=True\<close>, and compares keys with \<open><\<close> only. It is modelled
  as the stable insertion sort into descending order: an element moves past the entries
  whose key is strictly greater and stops before the first one that is not.
\<close>

fun insort_desc :: "match \<Rightarrow> match list \<Rightarrow> match list" where
  "insort_desc x [] = [x]"
| "insort_desc x (y # ys) =
     (if flt (m_similarity x) (m_similarity y) then y # insort_desc x ys else x # y # ys)"

fun sort_desc :: "match list \<Rightarrow> match list" where
  "sort_desc [] = []"
| "sort_desc (x # xs) = insort_desc x (sort_desc xs)"

text \<open>The slice \<open>xs[:k]\<close>: a negative \<open>k\<close> counts from the end of the list.\<close>

definition py_slice_to :: "'a list \<Rightarrow> int \<Rightarrow> 'a list" where
  "py_slice_to xs k =
     (if k \<ge> 0 then take (nat k) xs else take (nat (int (length xs) + k)) xs)"

text \<open>
  \<^verbatim>\<open>
  def find_similar_pets(query_embedding, top_k=10):
      try:
          all_embeddings = FaceEmbedding.objects.filter(status='completed')
          similarities = []
          for face_embedding in all_embeddings:
              try:
                  stored_embedding = face_embedding.get_embedding_vector()
                  similarity = calculate_cosine_similarity(query_embedding, stored_embedding)
                  similarities.append({
                      'pet': face_embedding.pet, 'embedding': face_embedding,
                      'similarity': similarity,
                      'confidence_level':
                          FaceRecognitionResult.determine_confidence_level(similarity)})
              except Exception as e:
                  continue
          similarities.sort(key=lambda x: x['similarity'], reverse=True)
          return similarities[:top_k]
      except Exception as e:
          return []
  \<close>
  The corpus is the table of FaceEmbedding rows in the order the query iterates them.
  Nothing in the loop body raises in this model (the similarity function catches its own
  exceptions), so the inner handler has no branch.
\<close>

definition similarity_entry :: "real list \<Rightarrow> FaceEmbedding \<Rightarrow> match" where
  "similarity_entry query_embedding face_embedding =
     (let stored_embedding = fe_embedding_vector face_embedding;
          similarity = calculate_cosine_similarity query_embedding stored_embedding
      in \<lparr>m_pet = fe_pet face_embedding, m_embedding = face_embedding,
          m_similarity = similarity,
          m_confidence_level = determine_confidence_level similarity\<rparr>)"

definition find_similar_pets :: "real list \<Rightarrow> FaceEmbedding list \<Rightarrow> int \<Rightarrow> match list" where
  "find_similar_pets query_embedding corpus top_k =
     (let all_embeddings = filter (\<lambda>e. fe_status e = es_completed) corpus;
          similarities = map (similarity_entry query_embedding) all_embeddings
      in py_slice_to (sort_desc similarities) top_k)"


text \<open>A corpus of five completed templates and a pending one, used as a concrete input.\<close>

definition example_corpus :: "FaceEmbedding list" where
  "example_corpus =
     [\<lparr>fe_pet = 1, fe_embedding_vector = [3, 4], fe_vector_dimension = 2,
        fe_status = es_completed, fe_source_images_count = 1\<rparr>,
      \<lparr>fe_pet = 2, fe_embedding_vector = [1, 0], fe_vector_dimension = 2,
        fe_status = es_completed, fe_source_images_count = 2\<rparr>,
      \<lparr>fe_pet = 3, fe_embedding_vector = [0, 1], fe_vector_dimension = 2,
        fe_status = es_completed, fe_source_images_count = 1\<rparr>,
      \<lparr>fe_pet = 4, fe_embedding_vector = [1, 0], fe_vector_dimension = 2,
        fe_status = es_pending, fe_source_images_count = 0\<rparr>,
      \<lparr>fe_pet = 5, fe_embedding_vector = [4, 3], fe_vector_dimension = 2,
        fe_status = es_completed, fe_source_images_count = 3\<rparr>,
      \<lparr>fe_pet = 6, fe_embedding_vector = [-1, 0], fe_vector_dimension = 2,
        fe_status = es_completed, fe_source_images_count = 1\<rparr>]"

section \<open>Template builder (face_recognition/services.py)\<close>

text \<open>One entry of the list \<open>detect_pet_faces\<close> returns (a dict in the source).\<close>

record detection =
  d_class :: string
  d_confidence :: real
  d_bounding_box :: "real list"
  d_area :: real

text \<open>
  The detector, the cropping step and the embedding model are external: they are
  parameters of the model. Each of the three methods catches its own exceptions and
  returns an empty list or \<open>None\<close> instead, so their results are plain values. The
  detector returns its detections sorted by descending confidence. The quality assessment
  returns a dict of metrics, empty when it fails.
\<close>

record 'crop adapters =
  detect_pet_faces :: "string \<Rightarrow> detection list"
  extract_face_crop :: "string \<Rightarrow> real list \<Rightarrow> 'crop option"
  generate_embedding :: "'crop \<Rightarrow> real list option"
  assess_image_quality :: "string \<Rightarrow> (string \<rightharpoonup> real)"

datatype quality_status = quality_pending | quality_good | quality_poor | quality_rejected

record PetImage =
  pi_id :: nat
  pi_pet :: nat
  pi_session :: "nat option"
  pi_image_path :: string
  pi_quality_status :: quality_status
  pi_sequence_number :: int
  pi_detected_pet_type :: "string option"
  pi_detection_confidence :: "real option"
  pi_bounding_box :: "real list option"
  pi_blur_score :: "real option"
  pi_brightness_score :: "real option"
  pi_contrast_score :: "real option"












section \<open>Registration sessions (pets/models.py)\<close>

text \<open>
  Timestamps are integers counting microseconds, the resolution of Python's datetime;
  \<open>timedelta(minutes=30)\<close> is the constant below.
\<close>

type_synonym time = int

definition minutes_30 :: time where
  "minutes_30 = 30 * 60 * 1000000"

datatype session_status = rs_active | rs_completed | rs_expired | rs_failed

datatype registration_status = reg_pending | reg_processing | reg_completed | reg_failed

record PetRegistrationSession =
  rs_id :: nat
  rs_pet :: nat
  rs_session_token :: string
  rs_status :: session_status
  rs_start_time :: time
  rs_expected_images_count :: int
  rs_actual_images_count :: int

text \<open>
  \<^verbatim>\<open>
  def is_expired(self):
      if self.status == 'active':
          expiry_time = self.start_time + timezone.timedelta(minutes=30)
          return timezone.now() > expiry_time
      return False
  \<close>
  The clock reading \<open>timezone.now()\<close> is the parameter \<open>now\<close>.
\<close>

definition rs_is_expired :: "time \<Rightarrow> PetRegistrationSession \<Rightarrow> bool" where
  "rs_is_expired now s =
     (if rs_status s = rs_active
      then (let expiry_time = rs_start_time s + minutes_30 in now > expiry_time)
      else False)"

section \<open>Registration views (pets/views.py)\<close>

text \<open>
  The tables the views read and write. \<open>db_sessions\<close> lists the rows of
  PetRegistrationSession in the order a query iterates them; \<open>db_pets\<close> gives the
  registration status of each pet the requesting user owns.
\<close>

record pets_db =
  db_pets :: "nat \<rightharpoonup> registration_status"
  db_sessions :: "PetRegistrationSession list"
  db_images :: "PetImage list"

text \<open>\<open>session.save()\<close>: the row with the primary key of \<open>session\<close> is overwritten.\<close>

definition save_session :: "pets_db \<Rightarrow> PetRegistrationSession \<Rightarrow> pets_db" where
  "save_session db session =
     db\<lparr>db_sessions := map (\<lambda>r. if rs_id r = rs_id session then session else r) (db_sessions db)\<rparr>"




text \<open>An uploaded file: the primary key and the storage path its PetImage row gets.\<close>

record uploaded_image =
  up_id :: nat
  up_path :: string

text \<open>
  The body of the loop of \<open>PetImageUploadView.post\<close> for the image \<open>upload\<close> at index
  \<open>i\<close>:
  \<^verbatim>\<open>
  pet_image = PetImage.objects.create(pet=session.pet, session=session, image=image,
                                      sequence_number=session.actual_images_count + i + 1)
  try:
      detections = yolo_service.detect_pet_faces(pet_image.image.path)
      quality_metrics = yolo_service.assess_image_quality(pet_image.image.path)
      if detections:
          best_detection = detections[0]
          pet_image.detected_pet_type = best_detection['class']
          pet_image.detection_confidence = best_detection['confidence']
          pet_image.bounding_box = best_detection['bounding_box']
          if best_detection['confidence'] > 0.7:
              pet_image.quality_status = 'good'
          elif best_detection['confidence'] > 0.5:
              pet_image.quality_status = 'poor'
          else:
              pet_image.quality_status = 'rejected'
      else:
          pet_image.quality_status = 'rejected'
      pet_image.blur_score = quality_metrics.get('blur_score')
      pet_image.brightness_score = quality_metrics.get('brightness_score')
      pet_image.contrast_score = quality_metrics.get('contrast_score')
      pet_image.save()
  except Exception as e:
      pet_image.quality_status = 'rejected'
      pet_image.save()
  \<close>
  The two adapter calls catch their own exceptions and storing a row is taken to succeed,
  so the handler has no branch.
\<close>

definition process_uploaded_image ::
  "'crop adapters \<Rightarrow> PetRegistrationSession \<Rightarrow> nat \<Rightarrow> uploaded_image \<Rightarrow> PetImage" where
  "process_uploaded_image A session i upload =
     (let pet_image =
            \<lparr>pi_id = up_id upload, pi_pet = rs_pet session, pi_session = Some (rs_id session),
             pi_image_path = up_path upload, pi_quality_status = quality_pending,
             pi_sequence_number = rs_actual_images_count session + int i + 1,
             pi_detected_pet_type = None, pi_detection_confidence = None,
             pi_bounding_box = None, pi_blur_score = None, pi_brightness_score = None,
             pi_contrast_score = None\<rparr>;
          detections = detect_pet_faces A (pi_image_path pet_image);
          quality_metrics = assess_image_quality A (pi_image_path pet_image);
          pet_image1 =
            (case detections of
               best_detection # _ \<Rightarrow>
                 pet_image
                   \<lparr>pi_detected_pet_type := Some (d_class best_detection),
                    pi_detection_confidence := Some (d_confidence best_detection),
                    pi_bounding_box := Some (d_bounding_box best_detection),
                    pi_quality_status :=
                      (if d_confidence best_detection > 0.7 then quality_good
                       else if d_confidence best_detection > 0.5 then quality_poor
                       else quality_rejected)\<rparr>
             | [] \<Rightarrow> pet_image\<lparr>pi_quality_status := quality_rejected\<rparr>)
      in pet_image1
           \<lparr>pi_blur_score := quality_metrics ''blur_score'',
            pi_brightness_score := quality_metrics ''brightness_score'',
            pi_contrast_score := quality_metrics ''contrast_score''\<rparr>)"

datatype upload_response =
    UploadInvalid
  | UploadExpired
  | UploadNotFound
  | Uploaded int "PetImage list"

text \<open>
  \<open>PetImageUploadSerializer\<close>: between 1 and 20 images, a token of at most 100
  characters that belongs to an active session which is not expired.
\<close>

definition upload_serializer_is_valid ::
  "pets_db \<Rightarrow> string \<Rightarrow> uploaded_image list \<Rightarrow> time \<Rightarrow> bool" where
  "upload_serializer_is_valid db session_token images now =
     (images \<noteq> [] \<and> length images \<le> 20 \<and> length session_token \<le> 100 \<and>
      (case find (\<lambda>s. rs_session_token s = session_token \<and> rs_status s = rs_active)
              (db_sessions db) of
         None \<Rightarrow> False
       | Some session \<Rightarrow> \<not> rs_is_expired now session))"

text \<open>
  \<^verbatim>\<open>
  def post(self, request):
      serializer = PetImageUploadSerializer(data=request.data)
      if serializer.is_valid():
          session_token = serializer.validated_data['session_token']
          images = serializer.validated_data['images']
          try:
              session = PetRegistrationSession.objects.get(
                  session_token=session_token, status='active')
              if session.is_expired():
                  session.status = 'expired'
                  session.save()
                  return Response({'error': 'Session has expired'}, status=400)
              yolo_service = YOLODetectionService()
              processed_images = []
              for i, image in enumerate(images):
                  ... the loop body above ...
                  processed_images.append(PetImageSerializer(pet_image).data)
              session.actual_images_count += len(images)
              session.save()
              return Response({..., 'total_images': session.actual_images_count,
                               'processed_images': processed_images})
          except PetRegistrationSession.DoesNotExist:
              return Response({'error': 'Invalid session token'}, status=404)
      return Response(serializer.errors, status=400)
  \<close>
  The serializer reads the clock at \<open>now_validation\<close> and the view at \<open>now\<close>.
\<close>

definition upload_images ::
  "'crop adapters \<Rightarrow> pets_db \<Rightarrow> string \<Rightarrow> uploaded_image list \<Rightarrow> time \<Rightarrow> time \<Rightarrow>
     upload_response \<times> pets_db" where
  "upload_images A db session_token images now_validation now =
     (if \<not> upload_serializer_is_valid db session_token images now_validation
      then (UploadInvalid, db)
      else
        case find (\<lambda>s. rs_session_token s = session_token \<and> rs_status s = rs_active)
               (db_sessions db) of
          None \<Rightarrow> (UploadNotFound, db)
        | Some session \<Rightarrow>
            if rs_is_expired now session
            then (UploadExpired, save_session db (session\<lparr>rs_status := rs_expired\<rparr>))
            else
              (let processed_images =
                     map (\<lambda>(i, upload). process_uploaded_image A session i upload)
                       (enumerate 0 images);
                   session1 = session
                     \<lparr>rs_actual_images_count :=
                        rs_actual_images_count session + int (length images)\<rparr>;
                   db1 = save_session (db\<lparr>db_images := db_images db @ processed_images\<rparr>) session1
               in (Uploaded (rs_actual_images_count session1) processed_images, db1)))"

text \<open>A detector that reports one dog face with the given confidence in every image.\<close>

definition constant_detector :: "real \<Rightarrow> nat adapters" where
  "constant_detector c =
     \<lparr>detect_pet_faces = (\<lambda>path.
        [\<lparr>d_class = ''dog_face'', d_confidence = c, d_bounding_box = [0, 0, 10, 10],
          d_area = 100\<rparr>]),
      extract_face_crop = (\<lambda>path box. Some 1),
      generate_embedding = (\<lambda>crop. Some [1, 2]),
      assess_image_quality = (\<lambda>path. Map.empty)\<rparr>"

definition example_session :: "session_status \<Rightarrow> PetRegistrationSession" where
  "example_session st =
     \<lparr>rs_id = 1, rs_pet = 7, rs_session_token = ''tok-1'', rs_status = st,
      rs_start_time = 0, rs_expected_images_count = 10, rs_actual_images_count = 0\<rparr>"

definition example_pets_db :: pets_db where
  "example_pets_db =
     \<lparr>db_pets = [7 \<mapsto> reg_pending], db_sessions = [example_session rs_active],
      db_images = []\<rparr>"

section \<open>QR codes and QR search sessions (qr_search/models.py, qr_search/views.py)\<close>

datatype qr_status = qr_active | qr_used | qr_expired | qr_disabled

record QRCode =
  q_code :: string
  q_status :: qr_status
  q_expires_at :: time
  q_used_at :: "time option"
  q_usage_count :: int
  q_max_usage :: int

text \<open>
  \<^verbatim>\<open>
  def is_expired(self):
      return timezone.now() > self.expires_at

  def is_usable(self):
      return (self.status == 'active' and not self.is_expired() and
              self.usage_count < self.max_usage)

  def mark_as_used(self):
      self.usage_count += 1
      self.used_at = timezone.now()
      if self.usage_count >= self.max_usage:
          self.status = 'used'
      self.save()
  \<close>
\<close>

definition qr_is_expired :: "time \<Rightarrow> QRCode \<Rightarrow> bool" where
  "qr_is_expired now q = (now > q_expires_at q)"

definition is_usable :: "time \<Rightarrow> QRCode \<Rightarrow> bool" where
  "is_usable now q =
     (q_status q = qr_active \<and> \<not> qr_is_expired now q \<and> q_usage_count q < q_max_usage q)"

definition mark_as_used :: "time \<Rightarrow> QRCode \<Rightarrow> QRCode" where
  "mark_as_used now q =
     (let q1 = q\<lparr>q_usage_count := q_usage_count q + 1, q_used_at := Some now\<rparr>
      in if q_usage_count q1 \<ge> q_max_usage q1 then q1\<lparr>q_status := qr_used\<rparr> else q1)"

datatype search_status =
  qs_initiated | qs_image_uploaded | qs_processing | qs_completed | qs_failed | qs_expired

record QRSearchSession =
  qs_qr_code :: string
  qs_session_token :: string
  qs_status :: search_status
  qs_expires_at :: time
  qs_completed_at :: "time option"
  qs_search_result :: "match option"

definition qs_is_expired :: "time \<Rightarrow> QRSearchSession \<Rightarrow> bool" where
  "qs_is_expired now s = (now > qs_expires_at s)"

text \<open>
  The tables of the QR views: the codes by their unique code string, the search sessions
  by their unique token, and the template corpus the search ranks against. A session
  refers to its code by the code string.
\<close>

record qr_db =
  qdb_codes :: "string \<rightharpoonup> QRCode"
  qdb_sessions :: "string \<rightharpoonup> QRSearchSession"
  qdb_corpus :: "FaceEmbedding list"

text \<open>\<open>session.save()\<close> for the session row that was fetched by \<open>token\<close>.\<close>

definition save_search_session :: "qr_db \<Rightarrow> string \<Rightarrow> QRSearchSession \<Rightarrow> qr_db" where
  "save_search_session db token session =
     db\<lparr>qdb_sessions := (qdb_sessions db)(token \<mapsto> session)\<rparr>"

datatype scan_response =
    ScanInvalid
  | ScanNotFound
  | ScanNotUsable
  | ScanNoToken
  | Scanned QRSearchSession

text \<open>
  \<open>ScanQRCodeSerializer\<close>: a code string of at most 50 characters that names a usable
  code; every other case is a validation error.
\<close>

definition scan_serializer_is_valid :: "qr_db \<Rightarrow> string \<Rightarrow> time \<Rightarrow> bool" where
  "scan_serializer_is_valid db qr_code_text now =
     (length qr_code_text \<le> 50 \<and>
      (case qdb_codes db qr_code_text of None \<Rightarrow> False | Some q \<Rightarrow> is_usable now q))"

text \<open>
  \<^verbatim>\<open>
  def post(self, request):                      # QRScanView
      serializer = ScanQRCodeSerializer(data=request.data)
      if serializer.is_valid():
          qr_code_text = serializer.validated_data['qr_code']
          try:
              qr_code = QRCode.objects.get(code=qr_code_text)
              if not qr_code.is_usable():
                  return Response({'error': error_msg}, status=400)
              session_token = QRSearchSession.generate_session_token()
              expires_at = timezone.now() + timedelta(minutes=30)
              session = QRSearchSession.objects.create(
                  qr_code=qr_code, session_token=session_token, expires_at=expires_at, ...)
              return Response({'message': 'QR code scanned successfully', ...})
          except QRCode.DoesNotExist:
              return Response({'error': 'Invalid QR code'}, status=404)
      return Response(serializer.errors, status=400)
  \<close>
  \<open>generate_session_token\<close> draws random tokens until one is not in the table; the
  successive draws are the list \<open>candidates\<close>, and \<open>ScanNoToken\<close> stands for a run in
  which none of them is free.
\<close>

definition scan_qr_code ::
  "qr_db \<Rightarrow> string \<Rightarrow> time \<Rightarrow> time \<Rightarrow> string list \<Rightarrow> scan_response \<times> qr_db" where
  "scan_qr_code db qr_code_text now_validation now candidates =
     (if \<not> scan_serializer_is_valid db qr_code_text now_validation then (ScanInvalid, db)
      else
        case qdb_codes db qr_code_text of
          None \<Rightarrow> (ScanNotFound, db)
        | Some qr_code \<Rightarrow>
            if \<not> is_usable now qr_code then (ScanNotUsable, db)
            else
              (case find (\<lambda>token. qdb_sessions db token = None) candidates of
                 None \<Rightarrow> (ScanNoToken, db)
               | Some session_token \<Rightarrow>
                   (let session =
                          \<lparr>qs_qr_code = qr_code_text, qs_session_token = session_token,
                           qs_status = qs_initiated, qs_expires_at = now + minutes_30,
                           qs_completed_at = None, qs_search_result = None\<rparr>
                    in (Scanned session, save_search_session db session_token session))))"

datatype search_response =
    SearchInvalid
  | SearchNotFound
  | SearchExpired
  | SearchNoFace
  | SearchError
  | SearchCompleted "match option"

text \<open>
  \<open>QRSearchRequestSerializer\<close>: the token, of at most 100 characters, must belong to a
  session whose status is \<open>initiated\<close> or \<open>image_uploaded\<close> and which is not expired,
  and the image must pass the size and format checks (\<open>image_ok\<close>).
\<close>

definition search_serializer_is_valid :: "qr_db \<Rightarrow> string \<Rightarrow> bool \<Rightarrow> time \<Rightarrow> bool" where
  "search_serializer_is_valid db session_token image_ok now =
     (length session_token \<le> 100 \<and>
      (case qdb_sessions db session_token of
         None \<Rightarrow> False
       | Some session \<Rightarrow>
           (qs_status session = qs_initiated \<or> qs_status session = qs_image_uploaded) \<and>
           \<not> qs_is_expired now session) \<and>
      image_ok)"

text \<open>
  \<^verbatim>\<open>
  def post(self, request):                      # QRSearchView
      serializer = QRSearchRequestSerializer(data=request.data)
      if serializer.is_valid():
          session_token = serializer.validated_data['session_token']
          image_file = serializer.validated_data['image']
          try:
              session = QRSearchSession.objects.get(session_token=session_token)
              if session.is_expired():
                  session.status = 'expired'
                  session.save()
                  return Response({'error': 'Search session has expired'}, status=400)
              session.status = 'processing'
              session.save()
              search_image = QRSearchImage.objects.create(session=session, image=image_file)
              try:
                  query_embedding = process_search_image(image_file)
                  if query_embedding is None:
                      ...
                      session.status = 'failed'
                      session.save()
                      return Response({'error': 'No pet face detected ...'}, status=400)
                  matches = FaceMatchingService.find_similar_pets(query_embedding, top_k=5)
                  search_result = None
                  if matches:
                      best_match = matches[0]
                      search_result = FaceRecognitionResult.objects.create(
                          matched_pet=best_match['pet'],
                          matched_embedding=best_match['embedding'],
                          similarity_score=best_match['similarity'],
                          confidence_level=best_match['confidence_level'], ...)
                      session.search_result = search_result
                  session.qr_code.mark_as_used()
                  session.status = 'completed'
                  session.completed_at = timezone.now()
                  session.save()
                  return Response(serializer.data)
              except Exception as e:
                  session.status = 'failed'
                  session.save()
                  return Response({'error': 'Error processing search request'}, status=500)
          except QRSearchSession.DoesNotExist:
              return Response({'error': 'Invalid session token'}, status=404)
      return Response(serializer.errors, status=400)
  \<close>
  \<open>process_search_image\<close> runs the detector and the embedder on the uploaded image and
  catches every exception; its result is the parameter \<open>query_embedding\<close>, \<open>None\<close>
  when no pet face is found or a step fails. The recognition result is the best match.
  The QRSearchImage rows are not modelled. Storing a row is taken to succeed; the only
  exception of the inner block in the model is a session whose code is missing.
\<close>

definition qr_search ::
  "qr_db \<Rightarrow> string \<Rightarrow> bool \<Rightarrow> real list option \<Rightarrow> time \<Rightarrow> time \<Rightarrow> search_response \<times> qr_db" where
  "qr_search db session_token image_ok query_embedding now_validation now =
     (if \<not> search_serializer_is_valid db session_token image_ok now_validation
      then (SearchInvalid, db)
      else
        case qdb_sessions db session_token of
          None \<Rightarrow> (SearchNotFound, db)
        | Some session \<Rightarrow>
            if qs_is_expired now session
            then (SearchExpired,
                  save_search_session db session_token (session\<lparr>qs_status := qs_expired\<rparr>))
            else
              (let session1 = session\<lparr>qs_status := qs_processing\<rparr>;
                   db1 = save_search_session db session_token session1
               in case query_embedding of
                    None \<Rightarrow>
                      (SearchNoFace,
                       save_search_session db1 session_token (session1\<lparr>qs_status := qs_failed\<rparr>))
                  | Some query \<Rightarrow>
                      (let matches = find_similar_pets query (qdb_corpus db1) 5;
                           search_result =
                             (case matches of [] \<Rightarrow> None | best_match # _ \<Rightarrow> Some best_match);
                           session2 = session1\<lparr>qs_search_result := search_result\<rparr>
                       in case qdb_codes db1 (qs_qr_code session2) of
                            None \<Rightarrow>
                              (SearchError,
                               save_search_session db1 session_token
                                 (session2\<lparr>qs_status := qs_failed\<rparr>))
                          | Some qr_code \<Rightarrow>
                              (let db2 = db1\<lparr>qdb_codes :=
                                     (qdb_codes db1)(qs_qr_code session2 \<mapsto>
                                        mark_as_used now qr_code)\<rparr>;
                                   session3 = session2
                                     \<lparr>qs_status := qs_completed, qs_completed_at := Some now\<rparr>
                               in (SearchCompleted search_result,
                                   save_search_session db2 session_token session3)))))"

text \<open>The requests of the QR interface, and a run of a list of them in order.\<close>

datatype qr_request =
    Scan string time time "string list"
  | Search string bool "real list option" time time

fun qr_step :: "qr_db \<Rightarrow> qr_request \<Rightarrow> qr_db" where
  "qr_step db (Scan code now_validation now candidates) =
     snd (scan_qr_code db code now_validation now candidates)"
| "qr_step db (Search token image_ok query_embedding now_validation now) =
     snd (qr_search db token image_ok query_embedding now_validation now)"

fun qr_run :: "qr_db \<Rightarrow> qr_request list \<Rightarrow> qr_db" where
  "qr_run db [] = db"
| "qr_run db (r # rs) = qr_run (qr_step db r) rs"

text \<open>
  A code with usage cap 1 that expires at time 1000, scanned once: the session
  \<open>''s-1''\<close>, and the example corpus.
\<close>

definition example_code :: QRCode where
  "example_code =
     \<lparr>q_code = ''QR1'', q_status = qr_active, q_expires_at = 1000, q_used_at = None,
      q_usage_count = 0, q_max_usage = 1\<rparr>"

definition example_search_session :: "search_status \<Rightarrow> QRSearchSession" where
  "example_search_session st =
     \<lparr>qs_qr_code = ''QR1'', qs_session_token = ''s-1'', qs_status = st,
      qs_expires_at = 500, qs_completed_at = None, qs_search_result = None\<rparr>"

definition example_qr_db :: "search_status \<Rightarrow> qr_db" where
  "example_qr_db st =
     \<lparr>qdb_codes = [''QR1'' \<mapsto> example_code],
      qdb_sessions = [''s-1'' \<mapsto> example_search_session st],
      qdb_corpus = example_corpus\<rparr>"

section \<open>Properties\<close>

text \<open>
  C1. A finite similarity score is assigned the tier eagle_trail exactly when it is at
  least 0.90, lobo_trail exactly when it is at least 0.80 and below 0.90, and no_match
  exactly when it is below 0.80; the scores 0.90 and 0.80 themselves fall in eagle_trail
  and lobo_trail.
\<close>

theorem determine_confidence_level_tiers:
  "(determine_confidence_level (Fin s) = eagle_trail \<longleftrightarrow> s \<ge> 0.90) \<and>
   (determine_confidence_level (Fin s) = lobo_trail \<longleftrightarrow> 0.80 \<le> s \<and> s < 0.90) \<and>
   (determine_confidence_level (Fin s) = no_match \<longleftrightarrow> s < 0.80) \<and>
   determine_confidence_level (Fin 0.90) = eagle_trail \<and>
   determine_confidence_level (Fin 0.80) = lobo_trail"
  by (simp add: determine_confidence_level_def)

text \<open>
  C10. The expiry check of a registration session returns true exactly when the session
  is active and the clock is more than 30 minutes past its start time; for a completed,
  failed or expired session it returns false.
\<close>

theorem rs_is_expired_only_active:
  "(rs_is_expired now s \<longleftrightarrow> rs_status s = rs_active \<and> now > rs_start_time s + minutes_30) \<and>
   (rs_status s \<in> {rs_completed, rs_failed, rs_expired} \<longrightarrow> \<not> rs_is_expired now s)"
  by (auto simp: rs_is_expired_def)

text \<open>
  A completed session started at time 0 is not expired two hours later, although an
  active one with the same start time is.
\<close>

theorem rs_is_expired_only_active_witness:
  "rs_is_expired 7200000000
     \<lparr>rs_id = 1, rs_pet = 1, rs_session_token = ''tok'', rs_status = rs_active,
      rs_start_time = 0, rs_expected_images_count = 10, rs_actual_images_count = 0\<rparr> \<and>
   \<not> rs_is_expired 7200000000
     \<lparr>rs_id = 1, rs_pet = 1, rs_session_token = ''tok'', rs_status = rs_completed,
      rs_start_time = 0, rs_expected_images_count = 10, rs_actual_images_count = 3\<rparr>"
  using rs_is_expired_only_active [of 7200000000
      "\<lparr>rs_id = 1, rs_pet = 1, rs_session_token = ''tok'', rs_status = rs_active,
       rs_start_time = 0, rs_expected_images_count = 10, rs_actual_images_count = 0\<rparr>"]
    rs_is_expired_only_active [of 7200000000
      "\<lparr>rs_id = 1, rs_pet = 1, rs_session_token = ''tok'', rs_status = rs_completed,
       rs_start_time = 0, rs_expected_images_count = 10, rs_actual_images_count = 3\<rparr>"]
  by (simp add: minutes_30_def)

subsection \<open>Similarity on degenerate vectors\<close>

lemma foldl_fadd_NaN: "foldl fadd NaN xs = NaN"
  by (induction xs) auto

lemma np_norm_zero: "\<forall>x \<in> set z. x = 0 \<Longrightarrow> np_norm z = 0"
  by (induction z) (auto simp: np_norm_def)

text \<open>
  A non-empty all-zero vector is normalised to NaN components; the NaN survives the dot
  product, \<open>min(1, nan)\<close> keeps the 1, and the function returns 1.0 against every
  vector of the same length.
\<close>

lemma calculate_cosine_similarity_zero_magnitude:
  assumes "z \<noteq> []" and "\<forall>x \<in> set z. x = 0" and "length w = length z"
  shows "calculate_cosine_similarity z w = Fin 1"
proof -
  obtain x z' where z: "z = x # z'" using assms(1) by (cases z) auto
  obtain y w' where w: "w = y # w'" using assms(3) z by (cases w) auto
  have x0: "x = 0" using assms(2) z by simp
  have nz: "np_norm z = 0" by (rule np_norm_zero [OF assms(2)])
  have "map (\<lambda>x. fdiv x (np_norm z)) z = NaN # map (\<lambda>x. fdiv x 0) z'"
    unfolding nz by (simp add: z x0 fdiv_def)
  moreover have "map (\<lambda>x. fdiv x (np_norm w)) w =
      fdiv y (np_norm w) # map (\<lambda>x. fdiv x (np_norm w)) w'"
    by (simp add: w)
  ultimately have "np_dot (map (\<lambda>x. fdiv x (np_norm z)) z)
      (map (\<lambda>x. fdiv x (np_norm w)) w) = Some NaN"
    using assms(3) z w by (simp add: np_dot_def foldl_fadd_NaN)
  then show ?thesis
    by (simp add: calculate_cosine_similarity_def py_min_def py_max_def)
qed

text \<open>
  C2. The specification states that a zero-magnitude vector has similarity 0.0 with every
  vector and that the function never raises. The function is total (it never raises), but
  on the zero vector \<open>[0, 0, 0]\<close> against \<open>[1, 2, 3]\<close> it returns 1.0, which the tier
  function ranks as eagle_trail.
\<close>

theorem calculate_cosine_similarity_zero_vector:
  "calculate_cosine_similarity [0, 0, 0] [1, 2, 3] = Fin 1 \<and>
   determine_confidence_level (calculate_cosine_similarity [0, 0, 0] [1, 2, 3]) = eagle_trail"
  by (simp add: calculate_cosine_similarity_def np_norm_def np_dot_def fdiv_def
      py_min_def py_max_def determine_confidence_level_def)

subsection \<open>Ranking\<close>
















lemma sqrt_25: "sqrt 25 = 5"
  by (rule real_sqrt_unique) simp_all

lemma example_norms:
  "np_norm [3, 4] = 5" "np_norm [4, 3] = 5" "np_norm [1, 0] = 1" "np_norm [0, 1] = 1"
  "np_norm [-1, 0] = 1"
  by (simp_all add: np_norm_def sqrt_25)

text \<open>The three entries are the pets 2, 5 and 1, with similarities 1.0, 0.8 and 0.6.\<close>

lemma find_similar_pets_example:
  "map (\<lambda>m. (m_pet m, m_similarity m)) (find_similar_pets [1, 0] example_corpus 3) =
     [(2, Fin 1), (5, Fin 0.8), (1, Fin 0.6)]"
  by (simp add: find_similar_pets_def example_corpus_def similarity_entry_def py_slice_to_def
      Let_def calculate_cosine_similarity_def example_norms np_dot_def fdiv_def py_min_def
      py_max_def)

subsection \<open>Template builder\<close>










subsection \<open>Starting a registration session\<close>












subsection \<open>Image intake\<close>

lemma nth_enumerate_map:
  "i < length xs \<Longrightarrow> map (\<lambda>(i, x). f i x) (enumerate 0 xs) ! i = f i (xs ! i)"
  by (simp add: nth_enumerate_eq)

text \<open>
  C9, as the code has it. For every image of an accepted upload, the quality status is
  good when the confidence of the first (best) detection is greater than 0.7, poor when it
  is greater than 0.5 and at most 0.7, and rejected when it is at most 0.5 or when there is
  no detection.
\<close>

theorem upload_images_quality:
  assumes "upload_images A db session_token images now_validation now = (Uploaded n processed, db')"
    and "i < length images"
  shows "length processed = length images \<and>
     (case detect_pet_faces A (up_path (images ! i)) of
        [] \<Rightarrow> pi_quality_status (processed ! i) = quality_rejected
      | best # _ \<Rightarrow>
          (d_confidence best > 0.7 \<longrightarrow> pi_quality_status (processed ! i) = quality_good) \<and>
          (0.5 < d_confidence best \<and> d_confidence best \<le> 0.7 \<longrightarrow>
             pi_quality_status (processed ! i) = quality_poor) \<and>
          (d_confidence best \<le> 0.5 \<longrightarrow> pi_quality_status (processed ! i) = quality_rejected))"
proof -
  from assms(1) obtain session where
    p: "processed = map (\<lambda>(i, upload). process_uploaded_image A session i upload) (enumerate 0 images)"
    by (auto simp: upload_images_def Let_def split: if_splits option.splits)
  have len: "length processed = length images" by (simp add: p)
  have nth: "processed ! i = process_uploaded_image A session i (images ! i)"
    unfolding p using assms(2) by (rule nth_enumerate_map)
  show ?thesis
    unfolding nth using len
    by (auto simp: process_uploaded_image_def Let_def split: list.splits)
qed

text \<open>
  The specification places the confidence 0.5 in the poor band (0.5 to 0.7) and only values below
  0.5 in the rejected one. An image whose best detection has confidence exactly 0.5 is
  stored as rejected.
\<close>

theorem upload_images_quality_counterexample:
  "fst (upload_images (constant_detector 0.5) example_pets_db ''tok-1''
          [\<lparr>up_id = 1, up_path = ''a.jpg''\<rparr>] 0 0) =
     Uploaded 1
       [\<lparr>pi_id = 1, pi_pet = 7, pi_session = Some 1, pi_image_path = ''a.jpg'',
         pi_quality_status = quality_rejected, pi_sequence_number = 1,
         pi_detected_pet_type = Some ''dog_face'', pi_detection_confidence = Some 0.5,
         pi_bounding_box = Some [0, 0, 10, 10], pi_blur_score = None,
         pi_brightness_score = None, pi_contrast_score = None\<rparr>]"
  by (simp add: upload_images_def upload_serializer_is_valid_def example_pets_db_def
      example_session_def rs_is_expired_def minutes_30_def process_uploaded_image_def
      constant_detector_def save_session_def enumerate_eq_zip Let_def)


text \<open>
  With a best detection of confidence 0.6 the uploaded image is stored as poor.
\<close>

theorem upload_images_quality_witness:
  "\<exists>n processed db'.
     upload_images (constant_detector 0.6) example_pets_db ''tok-1''
       [\<lparr>up_id = 1, up_path = ''a.jpg''\<rparr>] 0 0 = (Uploaded n processed, db') \<and>
     length processed = 1 \<and> pi_quality_status (processed ! 0) = quality_poor"
proof -
  obtain r db' where r: "upload_images (constant_detector 0.6) example_pets_db ''tok-1''
       [\<lparr>up_id = 1, up_path = ''a.jpg''\<rparr>] 0 0 = (r, db')"
    by (cases "upload_images (constant_detector 0.6) example_pets_db ''tok-1''
       [\<lparr>up_id = 1, up_path = ''a.jpg''\<rparr>] 0 0") auto
  then obtain n processed where u: "r = Uploaded n processed"
    by (auto simp: upload_images_def upload_serializer_is_valid_def example_pets_db_def
        example_session_def rs_is_expired_def minutes_30_def Let_def)
  have i: "(0::nat) < length [\<lparr>up_id = 1, up_path = ''a.jpg''\<rparr>]" by simp
  from upload_images_quality [OF r [unfolded u] i]
  have "length processed = 1 \<and> pi_quality_status (processed ! 0) = quality_poor"
    by (simp add: constant_detector_def)
  then show ?thesis using r u by blast
qed

subsection \<open>QR search sessions\<close>

lemma qr_search_other_session:
  "t \<noteq> token \<Longrightarrow>
     qdb_sessions (snd (qr_search db t image_ok qe nv now)) token = qdb_sessions db token"
  by (auto simp: qr_search_def save_search_session_def Let_def split: option.splits list.splits)

lemma qr_search_terminal:
  assumes "qdb_sessions db token = Some s"
    and "qs_status s \<in> {qs_completed, qs_failed, qs_expired}"
  shows "qr_search db token image_ok qe nv now = (SearchInvalid, db)"
  using assms by (auto simp: qr_search_def search_serializer_is_valid_def)

lemma scan_keeps_session:
  assumes "qdb_sessions db token = Some s"
  shows "qdb_sessions (snd (scan_qr_code db code nv now candidates)) token = Some s"
proof (cases "find (\<lambda>t. qdb_sessions db t = None) candidates")
  case None
  then show ?thesis using assms
    by (auto simp: scan_qr_code_def split: option.splits)
next
  case (Some t)
  then have "qdb_sessions db t = None" by (auto simp: find_Some_iff)
  then have "t \<noteq> token" using assms by auto
  then show ?thesis using assms Some
    by (auto simp: scan_qr_code_def save_search_session_def Let_def split: option.splits)
qed

lemma qr_step_terminal:
  assumes "qdb_sessions db token = Some s"
    and "qs_status s \<in> {qs_completed, qs_failed, qs_expired}"
  shows "qdb_sessions (qr_step db r) token = Some s"
proof (cases r)
  case (Scan code nv now candidates)
  then show ?thesis using scan_keeps_session [OF assms(1)] by simp
next
  case (Search t image_ok qe nv now)
  show ?thesis
  proof (cases "t = token")
    case True
    then show ?thesis using Search qr_search_terminal [OF assms] assms(1) by simp
  next
    case False
    then show ?thesis using Search qr_search_other_session [OF False] assms(1) by simp
  qed
qed

lemma qr_run_terminal:
  assumes "qdb_sessions db token = Some s"
    and "qs_status s \<in> {qs_completed, qs_failed, qs_expired}"
  shows "qdb_sessions (qr_run db rs) token = Some s"
  using assms
proof (induction rs arbitrary: db)
  case Nil
  then show ?case by simp
next
  case (Cons r rs)
  have "qdb_sessions (qr_step db r) token = Some s"
    using Cons.prems by (rule qr_step_terminal)
  then show ?case using Cons.IH Cons.prems(2) by simp
qed

text \<open>
  C6. A search session that has reached the status completed, failed or expired stays
  exactly as it is through every later sequence of scan and search requests, and after any
  such sequence an image upload for its token is rejected by the request validation
  without changing any table.
\<close>

theorem qr_search_terminal_session:
  assumes "qdb_sessions db token = Some s"
    and "qs_status s \<in> {qs_completed, qs_failed, qs_expired}"
  shows "qdb_sessions (qr_run db rs) token = Some s \<and>
         qr_search (qr_run db rs) token image_ok query_embedding now_validation now =
           (SearchInvalid, qr_run db rs)"
proof -
  have kept: "qdb_sessions (qr_run db rs) token = Some s"
    using assms by (rule qr_run_terminal)
  from qr_search_terminal [OF kept assms(2)] kept show ?thesis by simp
qed

text \<open>
  C8. A search request whose image yields no pet face never changes the table of QR codes;
  when the request passes validation and the session is not expired, the response is the
  no-face error and the session is stored as failed.
\<close>

theorem qr_search_no_face:
  "qdb_codes (snd (qr_search db token image_ok None now_validation now)) = qdb_codes db \<and>
   (search_serializer_is_valid db token image_ok now_validation \<and>
    qdb_sessions db token = Some s \<and> \<not> qs_is_expired now s \<longrightarrow>
      fst (qr_search db token image_ok None now_validation now) = SearchNoFace \<and>
      qdb_sessions (snd (qr_search db token image_ok None now_validation now)) token =
        Some (s\<lparr>qs_status := qs_failed\<rparr>))"
  by (auto simp: qr_search_def save_search_session_def Let_def split: option.splits)

subsection \<open>QR codes\<close>



lemma mark_as_used_max: "q_max_usage (mark_as_used now q) = q_max_usage q"
  by (simp add: mark_as_used_def Let_def)





text \<open>
  A completed session is untouched by a further upload and a further scan of its code, and
  the next upload for it is rejected.
\<close>

theorem qr_search_terminal_session_witness:
  "qdb_sessions
     (qr_run (example_qr_db qs_completed)
        [Search ''s-1'' True (Some [1, 0]) 10 10, Scan ''QR1'' 20 20 [''s-1'', ''s-2'']])
     ''s-1'' = Some (example_search_session qs_completed) \<and>
   qr_search
     (qr_run (example_qr_db qs_completed)
        [Search ''s-1'' True (Some [1, 0]) 10 10, Scan ''QR1'' 20 20 [''s-1'', ''s-2'']])
     ''s-1'' True (Some [1, 0]) 30 30 =
     (SearchInvalid,
      qr_run (example_qr_db qs_completed)
        [Search ''s-1'' True (Some [1, 0]) 10 10, Scan ''QR1'' 20 20 [''s-1'', ''s-2'']])"
proof -
  have s: "qdb_sessions (example_qr_db qs_completed) ''s-1'' =
      Some (example_search_session qs_completed)"
    by (simp add: example_qr_db_def)
  have t: "qs_status (example_search_session qs_completed) \<in> {qs_completed, qs_failed, qs_expired}"
    by (simp add: example_search_session_def)
  show ?thesis by (rule qr_search_terminal_session [OF s t])
qed

text \<open>
  In the example the upload without a face fails the session and leaves the code as it was.
\<close>

theorem qr_search_no_face_witness:
  "fst (qr_search (example_qr_db qs_initiated) ''s-1'' True None 10 10) = SearchNoFace \<and>
   qdb_sessions (snd (qr_search (example_qr_db qs_initiated) ''s-1'' True None 10 10)) ''s-1'' =
     Some (example_search_session qs_failed) \<and>
   qdb_codes (snd (qr_search (example_qr_db qs_initiated) ''s-1'' True None 10 10)) ''QR1'' =
     Some example_code"
  using qr_search_no_face [of "example_qr_db qs_initiated" "''s-1''" True 10 10
      "example_search_session qs_initiated"]
  by (simp add: example_qr_db_def example_search_session_def search_serializer_is_valid_def
      qs_is_expired_def)


end
